theory Spec2Isabelle
  imports Complex_Main
begin

section \<open>Numbers, errors and the drawing surface\<close>

text \<open>
  The renderers of \<^verbatim>\<open>controller.py\<close> compute coordinates from telemetry and issue
  primitive draw calls on a PIL surface. Each renderer is embedded as a function that
  returns the ordered list of primitives it issues. Python numbers (ints and floats) are
  embedded in the reals. The results of \<open>math.radians\<close>, \<open>math.sin\<close> and \<open>math.cos\<close>
  are not the mathematical values on binary floating point, so these functions are
  parameters of the environment; so are the sum \<open>m += step\<close> that the tick loops of
  \<open>meter\<close> accumulate and the product in \<open>posn\<close>, whose rounding decides which ticks
  and pixels are drawn. The remaining sums, differences, products and quotients are
  written exactly. The source's variables \<open>length\<close> and \<open>size\<close> are written \<open>len\<close> and
  \<open>msize\<close>. Where Python distinguishes an int result (\<open>round\<close>, \<open>int\<close>, \<open>math.floor\<close>,
  \<open>range\<close>) the model uses \<open>int\<close>. A Python exception is a value of \<open>py_error\<close>.
\<close>

datatype py_error = ZeroDivisionError | TypeError

type_synonym point = "real \<times> real"

datatype font = VeryLargeFont | LargeFont | MediumFont | SmallFont | VerySmallFont | WebFont

text \<open>
  One constructor per surface call that the embedded renderers use. Colours are the
  strings of the source; an absent \<open>fill\<close> or \<open>outline\<close> argument is \<open>None\<close>.
  \<open>MaskRectangle\<close> and \<open>MaskText\<close> draw on the offscreen label mask (\<open>cdraw\<close>);
  \<open>PasteMask colour pos angle\<close> is \<open>image.paste(colour, pos, mask.rotate(angle))\<close>.
\<close>

datatype draw_op =
    Line "point list" string nat
  | Polygon "point list" string string
  | Rectangle point point "string option" "string option"
  | RoundedRectangle point point real "string option" "string option"
  | Ellipse point point "string option" "string option" "nat option"
  | Arc point point real real string nat
  | Text point string font string
  | PasteAircraftImage "int \<times> int"
  | MaskRectangle point point string
  | MaskText point string font
  | PasteMask string "int \<times> int" real

text \<open>
  The process-wide device geometry set once by \<open>init\<close>, together with the collaborators
  whose code is not part of the file: the font rasteriser's \<open>textlength\<close>, Python's
  \<open>str\<close> on a number, the clock (\<open>time.time()\<close>),
  \<open>time.strftime("%H:%M", time.gmtime(t))\<close>, the functions \<open>math.radians\<close>, \<open>math.sin\<close>
  and \<open>math.cos\<close>, and Python's \<open>+\<close> and \<open>*\<close> on two numbers (exact on ints, rounded
  on floats).
\<close>

record env =
  sizex :: real
  sizey :: real
  zerox :: real
  zeroy :: real
  textlength :: "string \<Rightarrow> font \<Rightarrow> real"
  str_num :: "real \<Rightarrow> string"
  time_now :: real
  strftime_hm :: "int \<Rightarrow> string"
  math_radians :: "real \<Rightarrow> real"
  math_sin :: "real \<Rightarrow> real"
  math_cos :: "real \<Rightarrow> real"
  py_add :: "real \<Rightarrow> real \<Rightarrow> real"
  py_mul :: "real \<Rightarrow> real \<Rightarrow> real"

subsection \<open>Global constants\<close>

definition VERYLARGE :: real where "VERYLARGE = 43"
definition LARGE :: real where "LARGE = 25"
definition MEDIUM :: real where "MEDIUM = 23"
definition SMALL :: real where "SMALL = 21"
definition VERYSMALL :: real where "VERYSMALL = 18"
definition AIRCRAFT_SIZE :: real where "AIRCRAFT_SIZE = 4"
definition MINIMAL_CIRCLE :: real where "MINIMAL_CIRCLE = 18"
definition MAXIMAL_CIRCLE :: real where "MAXIMAL_CIRCLE = 100"
definition PITCH_SCALE :: real where "PITCH_SCALE = 3"
definition cmsize :: real where "cmsize = 15"
definition space :: real where "space = 3"

lemmas constants =
  VERYLARGE_def LARGE_def MEDIUM_def SMALL_def VERYSMALL_def AIRCRAFT_SIZE_def
  MINIMAL_CIRCLE_def MAXIMAL_CIRCLE_def PITCH_SCALE_def cmsize_def space_def

subsection \<open>Python built-ins\<close>

text \<open>\<open>round(x)\<close> on a float: the nearest integer, a tie going to the even neighbour.\<close>

definition py_round :: "real \<Rightarrow> int" where
  "py_round x =
     (let f = \<lfloor>x\<rfloor>; d = x - of_int f
      in if d < 1/2 then f else if 1/2 < d then f + 1 else if even f then f else f + 1)"

text \<open>\<open>int(x)\<close> on a float: truncation towards zero.\<close>

definition py_int :: "real \<Rightarrow> int" where
  "py_int x = (if 0 \<le> x then \<lfloor>x\<rfloor> else \<lceil>x\<rceil>)"

text \<open>
  The rounding of a real to an IEEE 754 double (53 significant bits, to nearest, a tie
  going to the even significand), for values in the normal range: \<open>expo x\<close> is the
  binary exponent of a positive \<open>x\<close>, with \<open>2 ^ expo x \<le> x < 2 ^ (expo x + 1)\<close>.
\<close>

definition pow2 :: "int \<Rightarrow> real" where
  "pow2 k = (if 0 \<le> k then 2 ^ nat k else 1 / 2 ^ nat (- k))"

function expo :: "real \<Rightarrow> int" where
  "expo x = (if x \<le> 0 then 0
             else if 2 \<le> x then expo (x / 2) + 1
             else if x < 1 then expo (2 * x) - 1
             else 0)"
  by pat_completeness auto
termination
proof (relation "measure (\<lambda>x. 2 * nat \<lceil>1 / x\<rceil> + nat \<lceil>x\<rceil>)")
  show "wf (measure (\<lambda>x. 2 * nat \<lceil>1 / x\<rceil> + nat \<lceil>x\<rceil>))" by simp
next
  fix x :: real
  assume a: "\<not> x \<le> 0" "2 \<le> x"
  have c1: "\<lceil>1 / (x / 2)\<rceil> = 1" using a by (intro ceiling_unique) auto
  have c2: "\<lceil>1 / x\<rceil> = 1" using a by (intro ceiling_unique) (auto simp: field_simps)
  have "\<lceil>x / 2\<rceil> < \<lceil>x\<rceil>"
  proof -
    have "x / 2 \<le> x - 1" using a by simp
    then have "\<lceil>x / 2\<rceil> \<le> \<lceil>x - 1\<rceil>" by (rule ceiling_mono)
    then show ?thesis by simp
  qed
  moreover have "0 < \<lceil>x\<rceil>" using a by simp
  ultimately have "nat \<lceil>x / 2\<rceil> < nat \<lceil>x\<rceil>" by linarith
  then show "(x / 2, x) \<in> measure (\<lambda>x. 2 * nat \<lceil>1 / x\<rceil> + nat \<lceil>x\<rceil>)"
    using c1 c2 by simp
next
  fix x :: real
  assume a: "\<not> x \<le> 0" "\<not> 2 \<le> x" "x < 1"
  define y where "y = 1 / x"
  have y: "1 < y" using a by (simp add: y_def)
  have e: "1 / (2 * x) = y / 2" by (simp add: y_def)
  have "\<lceil>y / 2\<rceil> \<le> \<lceil>y\<rceil> - 1"
  proof (cases "2 \<le> y")
    case True
    then have "y / 2 \<le> y - 1" by simp
    then have "\<lceil>y / 2\<rceil> \<le> \<lceil>y - 1\<rceil>" by (rule ceiling_mono)
    then show ?thesis by simp
  next
    case False
    then have "\<lceil>y / 2\<rceil> = 1" using y by (intro ceiling_unique) auto
    moreover have "\<lceil>y\<rceil> = 2" using y False by (intro ceiling_unique) auto
    ultimately show ?thesis by simp
  qed
  moreover have "0 < \<lceil>y\<rceil>" using y by simp
  ultimately have d1: "nat \<lceil>y / 2\<rceil> + 1 \<le> nat \<lceil>y\<rceil>" by linarith
  have "\<lceil>2 * x\<rceil> \<le> 2" using a by (simp add: ceiling_le_iff)
  moreover have "\<lceil>x\<rceil> = 1" using a by (intro ceiling_unique) auto
  ultimately have d2: "nat \<lceil>2 * x\<rceil> \<le> nat \<lceil>x\<rceil> + 1" by simp
  have m: "2 * nat \<lceil>1 / (2 * x)\<rceil> + nat \<lceil>2 * x\<rceil> < 2 * nat \<lceil>1 / x\<rceil> + nat \<lceil>x\<rceil>"
    using d1 d2 unfolding e y_def by linarith
  show "(2 * x, x) \<in> measure (\<lambda>x. 2 * nat \<lceil>1 / x\<rceil> + nat \<lceil>x\<rceil>)"
    by (simp only: in_measure) (rule m)
qed

declare expo.simps [simp del]

definition fl :: "real \<Rightarrow> real" where
  "fl x = (if x = 0 then 0
           else (let q = pow2 (expo \<bar>x\<bar> - 52) in of_int (py_round (x / q)) * q))"

text \<open>\<open>str\<close> on a Python int.\<close>

fun digits :: "nat \<Rightarrow> string" where
  "digits n =
     (if n < 10 then [''0123456789'' ! n]
      else digits (n div 10) @ [''0123456789'' ! (n mod 10)])"

declare digits.simps [simp del]

definition str_int :: "int \<Rightarrow> string" where
  "str_int i = (if i < 0 then ''-'' @ digits (nat (- i)) else digits (nat i))"

text \<open>The arrows U+2191 and U+2193 and the degree sign U+00B0, as their UTF-8 bytes.\<close>

definition up_arrow :: string where
  "up_arrow = [CHR 0xE2, CHR 0x86, CHR 0x91]"

definition down_arrow :: string where
  "down_arrow = [CHR 0xE2, CHR 0x86, CHR 0x93]"

definition degree_sign :: string where
  "degree_sign = [CHR 0xC2, CHR 0xB0]"

definition ipoint :: "int \<times> int \<Rightarrow> point" where
  "ipoint p = (of_int (fst p), of_int (snd p))"

section \<open>Geometry kernel\<close>

definition posn :: "env \<Rightarrow> real \<Rightarrow> real \<Rightarrow> int \<times> int" where
  "posn e angle arm_length =
     (let dx = py_round (py_mul e (math_cos e (math_radians e angle)) arm_length);
          dy = py_round (py_mul e (math_sin e (math_radians e angle)) arm_length)
      in (dx, dy))"

definition turn :: "real \<Rightarrow> real \<Rightarrow> point \<Rightarrow> point \<Rightarrow> int \<times> int" where
  "turn sin_a cos_a p zero =
     (py_round (fst zero + fst p * cos_a - snd p * sin_a),
      py_round (snd zero + fst p * sin_a + snd p * cos_a))"

definition translate :: "env \<Rightarrow> real \<Rightarrow> point list \<Rightarrow> point \<Rightarrow> (int \<times> int) list" where
  "translate e angle points zero =
     (let s = math_sin e (math_radians e angle);
          c = math_cos e (math_radians e angle)
      in map (\<lambda>p. turn s c p zero) points)"

definition centered_text :: "env \<Rightarrow> real \<Rightarrow> string \<Rightarrow> font \<Rightarrow> string \<Rightarrow> draw_op list" where
  "centered_text e y text font fill =
     (let ts = textlength e text font
      in [Text (zerox e - ts / 2, y) text font fill])"

section \<open>Attitude: the horizon transform\<close>

definition linepoints :: "env \<Rightarrow> real \<Rightarrow> real \<Rightarrow> real \<Rightarrow> real \<Rightarrow> point \<times> point" where
  "linepoints e pitch roll pitch_distance len =
     (let s = math_sin e (math_radians e (180 + roll));
          c = math_cos e (math_radians e (180 + roll));
          dist = (- pitch + pitch_distance) * PITCH_SCALE;
          move = (dist * s, dist * c);
          s1 = math_sin e (math_radians e (- 90 - roll));
          c1 = math_cos e (math_radians e (- 90 - roll));
          p1 = (zerox e - len * s1, zeroy e + len * c1);
          p2 = (zerox e + len * s1, zeroy e - len * c1);
          ps = (fst p1 + fst move, snd p1 + snd move);
          pe = (fst p2 + fst move, snd p2 + snd move)
      in (ps, pe))"

section \<open>Radar: traffic contacts\<close>

text \<open>The label of a directional contact: sign, absolute height and vertical trend.\<close>

definition aircraft_label :: "int \<Rightarrow> real \<Rightarrow> string" where
  "aircraft_label height vspeed =
     (let t = (if height \<ge> 0 then ''+'' @ str_int \<bar>height\<bar> else ''-'' @ str_int \<bar>height\<bar>);
          t = (if vspeed > 0 then t @ up_arrow else t);
          t = (if vspeed < 0 then t @ down_arrow else t)
      in t)"

text \<open>
  The label anchor; \<open>x\<close> and \<open>y\<close> are the scaled glyph position and \<open>tsize\<close> the
  measured label width.
\<close>

definition aircraft_tposition :: "env \<Rightarrow> real \<Rightarrow> real \<Rightarrow> real \<Rightarrow> point" where
  "aircraft_tposition e x y tsize =
     (if tsize + x + 4 * AIRCRAFT_SIZE - 2 > sizex e
      then (x - 4 * AIRCRAFT_SIZE - tsize, of_int (py_int (y - LARGE / 2)))
      else (x + 4 * AIRCRAFT_SIZE + 1, of_int (py_int (y - LARGE / 2))))"

definition aircraft ::
  "env \<Rightarrow> real \<Rightarrow> real \<Rightarrow> real \<Rightarrow> int \<Rightarrow> real \<Rightarrow> real \<Rightarrow> string option \<Rightarrow> draw_op list" where
  "aircraft e x0 y0 direction height vspeed nspeed_length tail =
     (let x = 0.9 * x0;
          y = 0.9 * y0;
          p1 = ipoint (posn e (270 + direction) (2 * AIRCRAFT_SIZE));
          p2 = ipoint (posn e (270 + direction + 150) (4 * AIRCRAFT_SIZE));
          p3 = ipoint (posn e (270 + direction + 180) (2 * AIRCRAFT_SIZE));
          p4 = ipoint (posn e (270 + direction + 210) (4 * AIRCRAFT_SIZE));
          p5 = ipoint (posn e (270 + direction) nspeed_length);
          t = aircraft_label height vspeed;
          tsize = textlength e t LargeFont;
          tposition = aircraft_tposition e x y tsize
      in [Polygon [(x + fst p1, y + snd p1), (x + fst p2, y + snd p2),
                   (x + fst p3, y + snd p3), (x + fst p4, y + snd p4)] ''red'' ''white'',
          Line [(x + fst p1, y + snd p1), (x + fst p5, y + snd p5)] ''white'' 1,
          Rectangle tposition (fst tposition + tsize, snd tposition + LARGE) (Some ''black'') None,
          Text tposition t LargeFont ''white'']
         @ (case tail of
              None \<Rightarrow> []
            | Some tail_text \<Rightarrow> [Text (fst tposition, snd tposition + LARGE) tail_text VerySmallFont ''white'']))"

text \<open>The label of a Mode-S contact.\<close>

definition modesaircraft_label :: "int \<Rightarrow> real \<Rightarrow> string" where
  "modesaircraft_label height vspeed =
     (let signchar = (if height > 0 then ''+'' else ''-'');
          t = signchar @ str_int \<bar>height\<bar>;
          t = (if vspeed > 0 then t @ up_arrow else t);
          t = (if vspeed < 0 then t @ down_arrow else t)
      in t)"

definition modesaircraft ::
  "env \<Rightarrow> real \<Rightarrow> int \<Rightarrow> real \<Rightarrow> real \<Rightarrow> string option \<Rightarrow> draw_op list" where
  "modesaircraft e radius0 height arcposition vspeed tail =
     (let radius = (if radius0 < MINIMAL_CIRCLE then MINIMAL_CIRCLE else radius0);
          radius = (if radius > MAXIMAL_CIRCLE then MAXIMAL_CIRCLE else radius);
          arctext = ipoint (posn e arcposition radius);
          t = modesaircraft_label height vspeed;
          tsize = textlength e t LargeFont;
          tposition = (zerox e + fst arctext - tsize / 2, zeroy e + snd arctext - LARGE / 2)
      in [Ellipse (zerox e - radius, zeroy e - radius) (zerox e + radius, zeroy e + radius)
            None (Some ''yellow'') (Some 3),
          Rectangle tposition (fst tposition + tsize, snd tposition + LARGE) (Some ''black'') None,
          Text tposition t LargeFont ''yellow'']
         @ (case tail of
              None \<Rightarrow> []
            | Some tail_text \<Rightarrow>
                (let tsize = textlength e tail_text VerySmallFont
                 in [Rectangle (fst tposition, snd tposition + LARGE)
                       (fst tposition + tsize, snd tposition + LARGE + VERYSMALL)
                       (Some ''black'') None,
                     Text (fst tposition, snd tposition + LARGE) tail_text VerySmallFont ''white''])))"

section \<open>Gauge\<close>

text \<open>
  Both tick loops of \<open>meter\<close> have the shape
  \<^verbatim>\<open>m = start_value; while m <= end_value: <draw the mark at m>; m += step\<close>.
  \<open>mark_values\<close> is that loop, collecting the values of \<open>m\<close> at which the body runs;
  \<open>None\<close> is a loop that does not return. Its first argument is Python's \<open>+\<close>.
\<close>

partial_function (option) mark_values ::
  "(real \<Rightarrow> real \<Rightarrow> real) \<Rightarrow> real \<Rightarrow> real \<Rightarrow> real \<Rightarrow> real list \<Rightarrow> real list option" where
  "mark_values add m end_value step acc =
     (if m \<le> end_value then mark_values add (add m step) end_value step (acc @ [m])
      else Some acc)"

text \<open>The value of \<open>m\<close> after \<open>i\<close> additions of the spacing.\<close>

fun mark_at :: "(real \<Rightarrow> real \<Rightarrow> real) \<Rightarrow> real \<Rightarrow> real \<Rightarrow> nat \<Rightarrow> real" where
  "mark_at add start_value step 0 = start_value"
| "mark_at add start_value step (Suc i) = add (mark_at add start_value step i) step"

text \<open>The body of the first loop: a small mark at value \<open>m\<close>.\<close>

definition small_mark ::
  "env \<Rightarrow> real \<Rightarrow> real \<Rightarrow> real \<Rightarrow> real \<Rightarrow> real \<Rightarrow> real \<Rightarrow> real \<Rightarrow> draw_op list" where
  "small_mark e deg_per_value start_value from_degree msize center_x center_y m =
     (let small_mark_length = 7;
          line = [(0, - msize / 2), (0, - msize / 2 + small_mark_length)];
          angle = deg_per_value * (m - start_value) + from_degree;
          mark = translate e angle line (center_x, center_y)
      in [Line (map ipoint mark) ''white'' 1])"

text \<open>The body of the second loop: a large mark at value \<open>m\<close> and its number.\<close>

definition large_mark ::
  "env \<Rightarrow> real \<Rightarrow> real \<Rightarrow> real \<Rightarrow> real \<Rightarrow> real \<Rightarrow> real \<Rightarrow> real \<Rightarrow> draw_op list" where
  "large_mark e deg_per_value start_value from_degree msize center_x center_y m =
     (let big_mark_length = 14;
          text_distance = 7;
          line = [(0, - msize / 2), (0, - msize / 2 + big_mark_length)];
          angle = deg_per_value * (m - start_value) + from_degree;
          mark = translate e angle line (center_x, center_y);
          marktext = str_num e m;
          w = textlength e marktext LargeFont;
          h = LARGE;
          t_center = translate e angle [(0, - msize / 2 + big_mark_length + h / 2 + text_distance)]
                       (center_x, center_y)
      in [Line (map ipoint mark) ''white'' 2,
          Text (of_int (fst (hd t_center)) - w / 2, of_int (snd (hd t_center)) - h / 2)
            marktext LargeFont ''white''])"

text \<open>The needle: \<open>current\<close> is normalised into the value range, then mapped to an angle.\<close>

definition normalize_current :: "real \<Rightarrow> real \<Rightarrow> real \<Rightarrow> real" where
  "normalize_current current start_value end_value =
     (if current > end_value then end_value
      else if current < start_value then start_value
      else current)"

definition needle_angle :: "real \<Rightarrow> real \<Rightarrow> real \<Rightarrow> real \<Rightarrow> real \<Rightarrow> real" where
  "needle_angle deg_per_value current start_value end_value from_degree =
     deg_per_value * (normalize_current current start_value end_value - start_value) + from_degree"

text \<open>
  \<open>meter\<close>: \<open>Some (Inl err)\<close> is an exception, \<open>Some (Inr ops)\<close> a normal return with the
  primitives drawn, \<open>None\<close> a call that does not return.
\<close>

definition meter ::
  "env \<Rightarrow> real \<Rightarrow> real \<Rightarrow> real \<Rightarrow> real \<Rightarrow> real \<Rightarrow> real \<Rightarrow> real \<Rightarrow> real \<Rightarrow> real \<Rightarrow> real
     \<Rightarrow> string option \<Rightarrow> string option \<Rightarrow> (py_error + draw_op list) option" where
  "meter e current start_value end_value from_degree to_degree msize center_x center_y
     marks_distance small_marks_distance middle_text1 middle_text2 =
     (let arrow_line_size = 8;
          arrow_head_size = 15;
          arrow_distance = 5;
          arrow = [(arrow_line_size / 2, 0), (- arrow_line_size / 2, 0),
                   (- arrow_line_size / 2, - msize / 2 + arrow_head_size),
                   (0, - msize / 2 + arrow_distance),
                   (arrow_line_size / 2, - msize / 2 + arrow_head_size),
                   (arrow_line_size / 2, 0)]
      in if end_value - start_value = 0 then Some (Inl ZeroDivisionError)
         else
           (let deg_per_value = (to_degree - from_degree) / (end_value - start_value);
                arc = [Arc (center_x - msize / 2, center_y - msize / 2)
                         (center_x + msize / 2, center_y + msize / 2)
                         (from_degree - 90) (to_degree - 90) ''white'' 2]
            in case mark_values (py_add e) start_value end_value small_marks_distance [] of
                 None \<Rightarrow> None
               | Some small_ms \<Rightarrow>
                   (case mark_values (py_add e) start_value end_value marks_distance [] of
                      None \<Rightarrow> None
                    | Some large_ms \<Rightarrow>
                        (let angle = needle_angle deg_per_value current start_value end_value
                                       from_degree;
                             ar = translate e angle arrow (center_x, center_y)
                         in Some (Inr
                              (arc
                               @ concat (map (small_mark e deg_per_value start_value from_degree
                                                msize center_x center_y) small_ms)
                               @ concat (map (large_mark e deg_per_value start_value from_degree
                                                msize center_x center_y) large_ms)
                               @ [Line (map ipoint ar) ''white'' 1,
                                  Ellipse (center_x - 5, center_y - 5) (center_x + 5, center_y + 5)
                                    (Some ''white'') None None]
                               @ (case middle_text1 of
                                    None \<Rightarrow> []
                                  | Some mt \<Rightarrow>
                                      (let ts = textlength e mt SmallFont;
                                           th = SMALL
                                       in [Text (center_x - ts / 2, center_y - th - 15) mt
                                             SmallFont ''yellow'']))
                               @ (case middle_text2 of
                                    None \<Rightarrow> []
                                  | Some mt \<Rightarrow>
                                      (let ts = textlength e mt SmallFont
                                       in [Text (center_x - ts / 2, center_y + 15) mt
                                             SmallFont ''yellow'']))))))))"

section \<open>Compass rose\<close>

text \<open>One iteration of the loop \<^verbatim>\<open>for m in range(0, 360, 10)\<close> of \<open>compass\<close>.\<close>

definition compass_step :: "env \<Rightarrow> real \<Rightarrow> int \<Rightarrow> draw_op list" where
  "compass_step e heading m =
     (let csize = sizey e / 2;
          s = math_sin e (math_radians e (of_int m - heading + 90));
          c = math_cos e (math_radians e (of_int m - heading + 90))
      in if m mod 30 \<noteq> 0
         then [Line [(zerox e - (csize - 1) * c, zeroy e - (csize - 1) * s),
                     (zerox e - (csize - cmsize) * c, zeroy e - (csize - cmsize) * s)]
                 ''white'' 1]
         else
           (let (mark, color) =
                  (if m = 0 then (''N'', ''yellow'')
                   else if m = 90 then (''E'', ''yellow'')
                   else if m = 180 then (''S'', ''yellow'')
                   else if m = 270 then (''W'', ''yellow'')
                   else (str_int (py_int (of_int m / 10)), ''white''));
                w = textlength e mark LargeFont;
                center = (zerox e - (csize - cmsize - LARGE / 2) * c,
                          zeroy e - (csize - cmsize - LARGE / 2) * s)
            in [Line [(zerox e - (csize - 1) * c, zeroy e - (csize - 1) * s),
                      (zerox e - (csize - cmsize) * c, zeroy e - (csize - cmsize) * s)]
                  ''white'' 3,
                MaskRectangle (0, 0) (LARGE * 2, LARGE * 2) ''black'',
                MaskText ((LARGE * 2 - w) / 2, (LARGE * 2 - LARGE) / 2) mark LargeFont,
                PasteMask color (py_round (fst center - LARGE), py_round (snd center - LARGE))
                  (- of_int m + heading)]))"

definition compass :: "env \<Rightarrow> real \<Rightarrow> string option \<Rightarrow> draw_op list" where
  "compass e heading error_message =
     (let csize = sizey e / 2;
          text = str_num e heading @ degree_sign;
          textsize = textlength e text SmallFont
      in [Ellipse (sizex e / 2 - csize, 0) (sizex e / 2 + csize - 1, sizey e - 1)
            (Some ''black'') (Some ''white'') (Some 3),
          PasteAircraftImage (py_round (zerox e) - 60, 60),
          Line [(zerox e, 20), (zerox e, 50)] ''orange'' 3,
          Text (sizex e - textsize, sizey e - SMALL) text SmallFont ''floralwhite'']
         @ concat (map (compass_step e heading) (map (\<lambda>k. 10 * int k) [0..<36]))
         @ (case error_message of
              None \<Rightarrow> []
            | Some msg \<Rightarrow> centered_text e 57 msg LargeFont ''red''))"

section \<open>Bar and graph panels\<close>

text \<open>\<open>bar\<close> returns the primitives drawn and the y position of the next bar.\<close>

definition bar ::
  "env \<Rightarrow> real \<Rightarrow> string \<Rightarrow> real \<Rightarrow> real \<Rightarrow> real \<Rightarrow> real \<Rightarrow> string \<Rightarrow> string option \<Rightarrow> real
     \<Rightarrow> draw_op list \<times> real" where
  "bar e y text val0 max_val yellow red unit valtext minval =
     (let bar_start = 60;
          bar_end = 240;
          right_val = str_int (py_int max_val) @ unit;
          textsize = textlength e right_val VerySmallFont;
          color = (if red = 0 then ''DimGray''
                   else if val0 \<ge> red then ''red''
                   else if val0 \<ge> yellow then ''DarkOrange''
                   else ''green'');
          val = (if val0 < minval then minval else val0);
          xval = (if max_val \<noteq> 0 then bar_start + (bar_end - bar_start) * val / max_val
                  else bar_start);
          t = (case valtext of Some vt \<Rightarrow> vt | None \<Rightarrow> str_num e val);
          textsize_t = textlength e t VerySmallFont
      in ([Text (0, y) text VerySmallFont ''white'',
           Text (sizex e - textsize, y) right_val VerySmallFont ''white'',
           RoundedRectangle (bar_start - 2, y - 2) (bar_end + 2, y + VERYSMALL + 2) 3
             None (Some ''white''),
           Rectangle (bar_start, y) (xval, y + VERYSMALL) (Some color) None,
           Text ((bar_end - bar_start) / 2 + bar_start - textsize_t / 2, y) t
             VerySmallFont ''white''],
          y + VERYSMALL + 5))"

text \<open>
  The loop of \<open>graph\<close> that draws the time marks below the x-axis; it returns the
  primitives and the final value of the variable \<open>x\<close>.
\<close>

fun time_marks ::
  "env \<Rightarrow> real \<Rightarrow> real \<Rightarrow> real \<Rightarrow> int \<Rightarrow> int \<Rightarrow> real \<Rightarrow> int \<Rightarrow> int list \<Rightarrow> real
     \<Rightarrow> draw_op list \<times> real" where
  "time_marks e ypos ysize ts acttime no_of_time time_offset offset [] x = ([], x)"
| "time_marks e ypos ysize ts acttime no_of_time time_offset offset (i # rest) x =
     (let timestr = strftime_hm e
                      \<lfloor>of_int acttime - (of_int no_of_time - of_int i) * time_offset\<rfloor>;
          r = time_marks e ypos ysize ts acttime no_of_time time_offset offset rest
                (x + of_int offset)
      in ([Line [(x, ypos + ysize - 1 - 5), (x, ypos + ysize - 1 + 3)] ''white'' 1,
           Text (x - ts / 2, ypos + ysize - 1 + 1) timestr VerySmallFont ''white'']
          @ fst r, snd r))"

text \<open>
  The loop of \<open>graph\<close> over the samples, lines 838 to 849. The arguments are the
  remaining samples with the index \<open>i\<close> of the first of them, the number \<open>n\<close> of all
  samples, and the loop's variables \<open>x\<close> and \<open>lastpoint\<close>. The branch taken when
  \<open>y > ypos+ysize-1\<close> assigns to \<open>x\<close>, as the source does.
\<close>

fun graph_samples ::
  "real \<Rightarrow> real \<Rightarrow> real \<Rightarrow> real \<Rightarrow> real \<Rightarrow> real \<Rightarrow> nat \<Rightarrow> nat \<Rightarrow> real list \<Rightarrow> real
     \<Rightarrow> point option \<Rightarrow> py_error + draw_op list" where
  "graph_samples xpos ypos xsize ysize minvalue maxvalue n i [] x lastpoint = Inr []"
| "graph_samples xpos ypos xsize ysize minvalue maxvalue n i (d # rest) x lastpoint =
     (let y = ypos - 1 + ysize - ysize * (d - minvalue) / (maxvalue - minvalue);
          y = (if y < ypos then ypos else y);
          x = (if y > ypos + ysize - 1 then ypos + ysize - 1 else x)
      in if i \<ge> 1
         then (let x = xpos + real i * xsize / (real n - 1)
               in case lastpoint of
                    None \<Rightarrow> Inl TypeError
                  | Some lp \<Rightarrow>
                      (case graph_samples xpos ypos xsize ysize minvalue maxvalue n (i + 1) rest x
                              (Some (x, y)) of
                         Inl err \<Rightarrow> Inl err
                       | Inr ops \<Rightarrow> Inr (Line [lp, (x, y)] ''cyan'' 2 # ops)))
         else (let x = xpos
               in graph_samples xpos ypos xsize ysize minvalue maxvalue n (i + 1) rest x
                    (Some (x, y))))"

text \<open>
  \<open>range(a, b, step)\<close> for a positive int step. Python raises \<open>TypeError\<close> when a bound
  is a float. A bound that is not a whole number can only be a float; a whole number is
  taken to be an int.
\<close>

definition py_range :: "real \<Rightarrow> real \<Rightarrow> real \<Rightarrow> py_error + real list" where
  "py_range a b step =
     (if a = of_int \<lfloor>a\<rfloor> \<and> b = of_int \<lfloor>b\<rfloor>
      then Inr (map (\<lambda>k. a + real k * step) [0..<nat \<lceil>(b - a) / step\<rceil>])
      else Inl TypeError)"

definition graph ::
  "env \<Rightarrow> real \<Rightarrow> real \<Rightarrow> real \<Rightarrow> real \<Rightarrow> real list \<Rightarrow> real \<Rightarrow> real \<Rightarrow> real \<Rightarrow> real \<Rightarrow> real
     \<Rightarrow> py_error + draw_op list" where
  "graph e xpos0 ypos0 xsize0 ysize0 data minvalue maxvalue value_line1 value_line2 timeout =
     (let ts = textlength e (str_num e maxvalue) VerySmallFont;
          th = VERYSMALL;
          xpos = xpos0 + ts + space;
          xsize = xsize0 - ts - space;
          ypos = ypos0 + th / 2;
          ysize = ysize0 - th;
          vlmin_y = ypos + ysize - 1;
          ts = textlength e (str_num e minvalue) VerySmallFont;
          text_min = Text (xpos - ts - space, vlmin_y - th) (str_num e minvalue)
                       VerySmallFont ''white''
      in if maxvalue - minvalue = 0 then Inl ZeroDivisionError
         else
           (let vl1_y = ypos + ysize - ysize * (value_line1 - minvalue) / (maxvalue - minvalue);
                ts = textlength e (str_num e value_line1) VerySmallFont;
                text_vl1 = Text (xpos - ts - space, vl1_y - th / 2) (str_num e value_line1)
                             VerySmallFont ''white'';
                vl2_y = ypos + ysize - ysize * (value_line2 - minvalue) / (maxvalue - minvalue);
                ts = textlength e (str_num e value_line2) VerySmallFont;
                text_vl2 = Text (xpos - ts - space, vl2_y - th / 2) (str_num e value_line2)
                             VerySmallFont ''white'';
                vlmax_y = ypos;
                ts = textlength e (str_num e maxvalue) VerySmallFont;
                text_max = Text (xpos - ts - space, vlmax_y - th / 2) (str_num e maxvalue)
                             VerySmallFont ''white'';
                box = Rectangle (xpos, ypos) (xpos + xsize - 1, ypos + ysize - 1)
                        (Some ''black'') (Some ''white'');
                no_of_values = length data;
                full_time = timeout * real no_of_values;
                timestr = strftime_hm e \<lfloor>time_now e\<rfloor>;
                ts = textlength e timestr VerySmallFont
            in if ts = 0 then Inl ZeroDivisionError
               else
                 (let no_of_time = \<lfloor>xsize / ts / 2\<rfloor> + 1
                  in if no_of_time = 0 then Inl ZeroDivisionError
                     else
                       (let time_offset = full_time / of_int no_of_time;
                            offset = \<lfloor>(xsize - 1) / of_int no_of_time\<rfloor>;
                            x = xpos;
                            acttime = \<lfloor>time_now e\<rfloor>;
                            tm = time_marks e ypos ysize ts acttime no_of_time time_offset offset
                                   (map int [0..<nat (no_of_time + 1)]) x;
                            x = snd tm
                        in case graph_samples xpos ypos xsize ysize minvalue maxvalue
                                  (length data) 0 data x None of
                             Inl err \<Rightarrow> Inl err
                           | Inr sample_ops \<Rightarrow>
                               (let y1 = ypos + ysize
                                           - ysize * (value_line1 - minvalue) / (maxvalue - minvalue);
                                    y2 = ypos + ysize
                                           - ysize * (value_line2 - minvalue) / (maxvalue - minvalue)
                                in case py_range xpos (xpos + xsize) 6 of
                                     Inl err \<Rightarrow> Inl err
                                   | Inr xs \<Rightarrow>
                                       Inr ([text_min, text_vl1, text_vl2, text_max, box]
                                            @ fst tm
                                            @ sample_ops
                                            @ map (\<lambda>x. Line [(x, y1), (x + 3, y1)] ''white'' 1) xs
                                            @ map (\<lambda>x. Line [(x, y2), (x + 3, y2)] ''white'' 1)
                                                xs))))))"

section \<open>Example devices\<close>

text \<open>
  A 240 by 240 panel whose fonts are 10 pixels wide per character, used to evaluate the
  renderers on concrete calls. In \<open>panel240\<close> the library functions are the mathematical
  ones and sums and products are exact, as Python's are on ints.
\<close>

definition panel240 :: env where
  "panel240 =
     \<lparr>sizex = 240, sizey = 240, zerox = 120, zeroy = 120,
      textlength = (\<lambda>t f. 10 * real (length t)),
      str_num = (\<lambda>v. str_int \<lfloor>v\<rfloor>),
      time_now = 0,
      strftime_hm = (\<lambda>t. ''00:00''),
      math_radians = (\<lambda>a. a * pi / 180),
      math_sin = sin,
      math_cos = cos,
      py_add = (\<lambda>a b. a + b),
      py_mul = (\<lambda>a b. a * b)\<rparr>"

text \<open>
  The same panel with the arithmetic of CPython on IEEE 754 doubles. Sums and products
  are rounded by \<open>fl\<close>, and \<open>math.radians(a)\<close> is the rounded product of \<open>a\<close> and the
  double \<open>math.pi / 180\<close>. \<open>math.sin\<close> and \<open>math.cos\<close> are tabulated at the
  arguments used below (the doubles \<open>math.radians\<close> returns for 60, 420, 90, -90, 180
  and 360 degrees) with the doubles the library returns there; at 0 both agree with
  the mathematical value, which stands in at all other arguments.
\<close>

definition deg_to_rad :: real where
  "deg_to_rad = 5030569068109113 / 288230376151711744"

definition ieee_sin :: "real \<Rightarrow> real" where
  "ieee_sin x =
     (if x = 4716158501352293 / 4503599627370496 then 3900231685776981 / 4503599627370496
      else if x = 4126638688683257 / 562949953421312 then 1950115842888491 / 2251799813685248
      else if x = 884279719003555 / 562949953421312 then 1
      else if x = - 884279719003555 / 562949953421312 then - 1
      else if x = 884279719003555 / 281474976710656
        then 4967757600021511 / 40564819207303340847894502572032
      else if x = 884279719003555 / 140737488355328
        then - 4967757600021511 / 20282409603651670423947251286016
      else sin x)"

definition ieee_cos :: "real \<Rightarrow> real" where
  "ieee_cos x =
     (if x = 4716158501352293 / 4503599627370496 then 4503599627370497 / 9007199254740992
      else if x = 4126638688683257 / 562949953421312 then 9007199254740987 / 18014398509481984
      else if x = 884279719003555 / 562949953421312
        then 4967757600021511 / 81129638414606681695789005144064
      else if x = - 884279719003555 / 562949953421312
        then 4967757600021511 / 81129638414606681695789005144064
      else if x = 884279719003555 / 281474976710656 then - 1
      else if x = 884279719003555 / 140737488355328 then 1
      else cos x)"

definition panel240_ieee :: env where
  "panel240_ieee =
     panel240
       \<lparr>math_radians := (\<lambda>a. fl (a * deg_to_rad)),
        math_sin := ieee_sin,
        math_cos := ieee_cos,
        py_add := (\<lambda>a b. fl (a + b)),
        py_mul := (\<lambda>a b. fl (a * b))\<rparr>"

section \<open>Notions used in the statements\<close>





section \<open>Properties of the geometry kernel\<close>



















section \<open>Properties of the horizon transform\<close>

lemma rad_m90: "math_radians panel240_ieee (- 90) = - 884279719003555 / 562949953421312"
  by (simp add: panel240_ieee_def panel240_def deg_to_rad_def fl_def expo.simps pow2_def
      py_round_def Let_def)

lemma rad_180: "math_radians panel240_ieee 180 = 884279719003555 / 281474976710656"
  by (simp add: panel240_ieee_def panel240_def deg_to_rad_def fl_def expo.simps pow2_def
      py_round_def Let_def)




text \<open>
  Rounded to doubles, the y-coordinates of that call are 120.00000000000001 and
  119.99999999999999; the x-coordinates are 320 and -80.
\<close>

lemma linepoints_at_ahrs_call_rounded:
  "fl (snd (fst (linepoints panel240_ieee 0 0 0 200))) = 8444249301319681 / 70368744177664
   \<and> fl (snd (snd (linepoints panel240_ieee 0 0 0 200))) = 8444249301319679 / 70368744177664
   \<and> fst (fst (linepoints panel240_ieee 0 0 0 200)) = 320
   \<and> fst (snd (linepoints panel240_ieee 0 0 0 200)) = - 80"
  by (simp add: linepoints_def Let_def rad_m90 rad_180)
     (simp add: panel240_ieee_def panel240_def ieee_sin_def ieee_cos_def fl_def expo.simps
      pow2_def py_round_def Let_def)

section \<open>Properties of the gauge\<close>

subsection \<open>The tick loops\<close>

text \<open>
  A tick loop returns when one of the accumulated values exceeds \<open>end_value\<close>, as
  happens for every positive spacing when the sums are exact; it never returns when all
  of them stay at or below \<open>end_value\<close>.
\<close>

lemma mark_at_shift:
  "mark_at add (add m step) step i = mark_at add m step (Suc i)"
  by (induction i) simp_all

lemma mark_values_run:
  "(\<forall>i<n. mark_at add m step i \<le> e) \<Longrightarrow> \<not> mark_at add m step n \<le> e \<Longrightarrow>
   mark_values add m e step acc = Some (acc @ map (mark_at add m step) [0..<n])"
proof (induction n arbitrary: m acc)
  case 0
  then have "\<not> m \<le> e" by simp
  then show ?case by (subst mark_values.simps) simp
next
  case (Suc n)
  have a: "m \<le> e" using Suc.prems(1) [rule_format, of 0] by simp
  have p1: "\<forall>i<n. mark_at add (add m step) step i \<le> e"
    using Suc.prems(1) by (simp add: mark_at_shift del: mark_at.simps)
  have p2: "\<not> mark_at add (add m step) step n \<le> e"
    using Suc.prems(2) by (simp add: mark_at_shift del: mark_at.simps)
  have ih: "mark_values add (add m step) e step (acc @ [m])
              = Some ((acc @ [m]) @ map (mark_at add (add m step) step) [0..<n])"
    by (rule Suc.IH [OF p1 p2])
  have eqf: "mark_at add (add m step) step = (\<lambda>i. mark_at add m step (Suc i))"
    by (rule ext) (rule mark_at_shift)
  have shift: "map (mark_at add (add m step) step) [0..<n]
                 = map (mark_at add m step) [Suc 0..<Suc n]"
    unfolding eqf by (simp only: map_Suc_upt [symmetric] map_map comp_def)
  have split: "[0..<Suc n] = 0 # [Suc 0..<Suc n]"
    by (simp add: upt_conv_Cons)
  have "mark_values add m e step acc = mark_values add (add m step) e step (acc @ [m])"
    by (subst mark_values.simps) (simp add: a)
  also have "\<dots> = Some (acc @ map (mark_at add m step) [0..<Suc n])"
    unfolding ih shift by (subst split) simp
  finally show ?case .
qed

lemma first_exceeding:
  assumes "\<not> mark_at add m step k \<le> e"
  shows "\<exists>n\<le>k. (\<forall>i<n. mark_at add m step i \<le> e) \<and> \<not> mark_at add m step n \<le> e"
proof -
  define n where "n = (LEAST j. \<not> mark_at add m step j \<le> e)"
  have 1: "\<not> mark_at add m step n \<le> e"
    unfolding n_def using assms by (rule LeastI)
  have 2: "n \<le> k" unfolding n_def using assms by (rule Least_le)
  have 3: "\<forall>i<n. mark_at add m step i \<le> e"
    using not_less_Least n_def by blast
  show ?thesis using 1 2 3 by blast
qed

lemma mark_values_Some_exceeds:
  "mark_values add m e step acc = Some vs \<Longrightarrow> \<exists>k. \<not> mark_at add m step k \<le> e"
proof (induction add m e step acc vs rule: mark_values.raw_induct [rotated 1, consumes 1])
  case (1 rec add m e step acc vs)
  note ih = this(1) and eq = this(2)
  show ?case
  proof (cases "m \<le> e")
    case True
    with eq have "rec add (add m step) e step (acc @ [m]) = Some vs" by simp
    then obtain k where "\<not> mark_at add (add m step) step k \<le> e" using ih by blast
    then have "\<not> mark_at add m step (Suc k) \<le> e"
      unfolding mark_at_shift .
    then show ?thesis by blast
  next
    case False
    then have "\<not> mark_at add m step 0 \<le> e" by simp
    then show ?thesis by blast
  qed
qed

lemma mark_values_diverges:
  "(\<forall>k. mark_at add m step k \<le> e) \<Longrightarrow> mark_values add m e step acc = None"
  using mark_values_Some_exceeds [of add m e step acc]
  by (cases "mark_values add m e step acc") auto

lemma mark_values_returns:
  assumes "\<not> mark_at add m step k \<le> e"
  shows "\<exists>vs. mark_values add m e step [] = Some vs"
  using first_exceeding [OF assms] mark_values_run [of _ add m step e "[]"] by blast

lemma meter_returns_normally:
  assumes "start_value \<noteq> end_value"
    and "\<not> mark_at (py_add e) start_value marks_distance k \<le> end_value"
    and "\<not> mark_at (py_add e) start_value small_marks_distance j \<le> end_value"
  shows "\<exists>ops. meter e current start_value end_value from_degree to_degree msize center_x center_y
           marks_distance small_marks_distance middle_text1 middle_text2 = Some (Inr ops)"
proof -
  obtain vs1 where v1:
    "mark_values (py_add e) start_value end_value small_marks_distance [] = Some vs1"
    using mark_values_returns [OF assms(3)] by blast
  obtain vs2 where v2: "mark_values (py_add e) start_value end_value marks_distance [] = Some vs2"
    using mark_values_returns [OF assms(2)] by blast
  show ?thesis
    using assms(1) by (simp add: meter_def Let_def v1 v2)
qed

lemma mark_at_exact: "mark_at (\<lambda>a b. a + b) m step i = m + real i * step"
  by (induction i) (simp_all add: algebra_simps)

lemma exact_sum_exceeds:
  assumes "0 < step"
  shows "\<exists>k. \<not> mark_at (\<lambda>a b. a + b) m step k \<le> e"
proof -
  obtain k :: nat where "(e - m) / step < real k" using reals_Archimedean2 by blast
  then have "e - m < real k * step" using assms by (simp add: pos_divide_less_eq)
  then have "\<not> m + real k * step \<le> e" by linarith
  then show ?thesis unfolding mark_at_exact by blast
qed




text \<open>
  On doubles, with the domain 0 to 0.3 and the spacing 0.1, the third sum is
  0.30000000000000004: the marks are at 0, 0.1 and 0.2, and 0.3 gets none.
\<close>

lemma meter_marks_on_doubles:
  "mark_values (py_add panel240_ieee) 0 (5404319552844595 / 18014398509481984)
     (3602879701896397 / 36028797018963968) []
     = Some [0, 3602879701896397 / 36028797018963968, 3602879701896397 / 18014398509481984]"
  by (simp add: panel240_ieee_def panel240_def mark_values.simps fl_def expo.simps pow2_def
      py_round_def Let_def)

subsection \<open>The needle\<close>




section \<open>Degenerate domains\<close>

text \<open>
  C2, as the code has it. With a zero-length domain \<open>meter\<close> (\<open>end_value = start_value\<close>)
  and \<open>graph\<close> (\<open>maxvalue = minvalue\<close>) raise \<open>ZeroDivisionError\<close>: neither function
  guards its division by the length of the domain.
\<close>

theorem degenerate_domain_raises:
  "(end_value = start_value \<longrightarrow>
      meter e current start_value end_value from_degree to_degree msize center_x center_y
        marks_distance small_marks_distance middle_text1 middle_text2
      = Some (Inl ZeroDivisionError))
   \<and> (maxvalue = minvalue \<longrightarrow>
      graph e xpos ypos xsize ysize data minvalue maxvalue value_line1 value_line2 timeout
      = Inl ZeroDivisionError)"
  by (simp add: meter_def graph_def Let_def)

theorem degenerate_domain_witness:
  "meter panel240 1 2 2 120 420 238 120 120 1 (1/4) (Some ''G-Meter'') None
     = Some (Inl ZeroDivisionError)
   \<and> graph panel240 0 26 228 185 [10, 20] 120 120 50 100 5 = Inl ZeroDivisionError"
  using degenerate_domain_raises [of 2 2 panel240 1 120 420 238 120 120 1 "1/4"
      "Some ''G-Meter''" None 120 120 0 26 228 185 "[10, 20]" 50 100 5]
  by simp

text \<open>
  Against C2 as stated: a gauge whose domain is 0 to 0 and a graph whose range is 50 to 50
  do not return normally.
\<close>

theorem degenerate_domain_counterexample:
  "meter panel240 0 0 0 0 270 100 120 120 1 1 None None = Some (Inl ZeroDivisionError)
   \<and> graph panel240 0 26 228 185 [] 50 50 50 100 1 = Inl ZeroDivisionError"
  by (simp add: meter_def graph_def Let_def)

section \<open>Properties of the compass rose\<close>


lemma rad_0: "math_radians panel240_ieee 0 = 0"
  by (simp add: panel240_ieee_def panel240_def fl_def)



lemma ieee_at_0: "math_sin panel240_ieee 0 = 0" "math_cos panel240_ieee 0 = 1"
  by (simp_all add: panel240_ieee_def panel240_def ieee_sin_def ieee_cos_def)



lemma geom_ieee:
  "sizex panel240_ieee = 240" "sizey panel240_ieee = 240"
  "zerox panel240_ieee = 120" "zeroy panel240_ieee = 120"
  "textlength panel240_ieee = (\<lambda>t f. 10 * real (length t))"
  by (simp_all add: panel240_ieee_def panel240_def)

lemma compass_step_N_at_heading_90:
  "compass_step panel240_ieee 90 0
     = [Line [(1, 120), (15, 120)] ''white'' 3,
        MaskRectangle (0, 0) (50, 50) ''black'',
        MaskText (20, 25 / 2) ''N'' LargeFont,
        PasteMask ''yellow'' (2, 95) 90]"
  by (simp add: compass_step_def Let_def rad_0 ieee_at_0 geom_ieee constants py_round_def)

lemma compass_has_steps:
  "k < 12 \<Longrightarrow> set (compass_step e heading (30 * int k)) \<subseteq> set (compass e heading err)"
proof -
  assume "k < 12"
  then have "3 * k < 36" by simp
  then have "10 * int (3 * k) \<in> set (map (\<lambda>k. 10 * int k) [0..<36])"
    by (simp only: set_map set_upt) (rule imageI, simp)
  moreover have "10 * int (3 * k) = 30 * int k" by simp
  ultimately have "30 * int k \<in> set (map (\<lambda>k. 10 * int k) [0..<36])" by simp
  then show ?thesis
    unfolding compass_def Let_def by (auto simp only: set_append set_concat set_map)
qed




section \<open>Properties of the traffic contacts\<close>

lemma str_int_0: "str_int 0 = ''0''"
  by (simp add: str_int_def digits.simps)

lemma aircraft_Text:
  "Text (aircraft_tposition e (0.9 * x0) (0.9 * y0)
           (textlength e (aircraft_label height vspeed) LargeFont))
        (aircraft_label height vspeed) LargeFont ''white''
     \<in> set (aircraft e x0 y0 direction height vspeed nspeed_length tail)"
  by (simp add: aircraft_def Let_def)

lemma modesaircraft_Text:
  "\<exists>p. Text p (modesaircraft_label height vspeed) LargeFont ''yellow''
     \<in> set (modesaircraft e radius height arcposition vspeed tail)"
  by (simp add: modesaircraft_def Let_def)

text \<open>
  C10. The label drawn by \<open>aircraft\<close> is \<open>aircraft_label\<close> and the one drawn by
  \<open>modesaircraft\<close> is \<open>modesaircraft_label\<close>. At height 0 the first is \<open>+0\<close> and the
  second \<open>-0\<close> (whatever the vertical speed, the first starts with \<open>+\<close> and the second
  with \<open>-\<close>); at every other height both labels are the same.
\<close>

theorem contact_sign_at_height_zero:
  "(\<exists>p. Text p (aircraft_label height vspeed) LargeFont ''white''
          \<in> set (aircraft e x y direction height vspeed nspeed_length tail))
   \<and> (\<exists>p. Text p (modesaircraft_label height vspeed) LargeFont ''yellow''
          \<in> set (modesaircraft e radius height arcposition vspeed tail))
   \<and> aircraft_label 0 0 = ''+0''
   \<and> modesaircraft_label 0 0 = ''-0''
   \<and> hd (aircraft_label 0 vspeed) = CHR ''+''
   \<and> hd (modesaircraft_label 0 vspeed) = CHR ''-''
   \<and> (height \<noteq> 0 \<longrightarrow> aircraft_label height vspeed = modesaircraft_label height vspeed)"
proof -
  have a: "\<exists>p. Text p (aircraft_label height vspeed) LargeFont ''white''
          \<in> set (aircraft e x y direction height vspeed nspeed_length tail)"
    using aircraft_Text by blast
  have b: "aircraft_label 0 0 = ''+0''" "modesaircraft_label 0 0 = ''-0''"
    by (simp_all add: aircraft_label_def modesaircraft_label_def str_int_0)
  have c: "hd (aircraft_label 0 vspeed) = CHR ''+''" "hd (modesaircraft_label 0 vspeed) = CHR ''-''"
    by (simp_all add: aircraft_label_def modesaircraft_label_def Let_def)
  have d: "height \<noteq> 0 \<longrightarrow> aircraft_label height vspeed = modesaircraft_label height vspeed"
    by (simp add: aircraft_label_def modesaircraft_label_def Let_def)
  show ?thesis using a modesaircraft_Text b c d by blast
qed

theorem contact_sign_witness:
  "(- 7 :: int) \<noteq> 0
   \<and> aircraft_label (- 7) 1 = modesaircraft_label (- 7) 1
   \<and> aircraft_label (- 7) 1 = ''-7'' @ up_arrow"
proof -
  have "aircraft_label (- 7) 1 = ''-7'' @ up_arrow"
    by (simp add: aircraft_label_def str_int_def digits.simps)
  then show ?thesis
    using contact_sign_at_height_zero [of "- 7" 1] by simp
qed

text \<open>
  C9, as the code has it. \<open>aircraft\<close> draws the label once, at \<open>aircraft_tposition\<close> of
  the scaled glyph position. With \<open>x\<close> the scaled position and \<open>tsize\<close> the label width,
  the anchor is \<open>x - 4 * AIRCRAFT_SIZE - tsize\<close> (left of the glyph) when
  \<open>x + tsize + (4 * AIRCRAFT_SIZE - 2) > sizex\<close> and \<open>x + 4 * AIRCRAFT_SIZE + 1\<close> (right
  of the glyph) otherwise.
\<close>

theorem aircraft_label_anchor:
  "(\<exists>glyph speed_line.
      aircraft e x0 y0 direction height vspeed nspeed_length tail
        = [glyph, speed_line,
           Rectangle (aircraft_tposition e (0.9 * x0) (0.9 * y0)
                        (textlength e (aircraft_label height vspeed) LargeFont))
             (fst (aircraft_tposition e (0.9 * x0) (0.9 * y0)
                        (textlength e (aircraft_label height vspeed) LargeFont))
                + textlength e (aircraft_label height vspeed) LargeFont,
              snd (aircraft_tposition e (0.9 * x0) (0.9 * y0)
                        (textlength e (aircraft_label height vspeed) LargeFont)) + LARGE)
             (Some ''black'') None,
           Text (aircraft_tposition e (0.9 * x0) (0.9 * y0)
                   (textlength e (aircraft_label height vspeed) LargeFont))
             (aircraft_label height vspeed) LargeFont ''white'']
          @ (case tail of
               None \<Rightarrow> []
             | Some tail_text \<Rightarrow>
                 [Text (fst (aircraft_tposition e (0.9 * x0) (0.9 * y0)
                               (textlength e (aircraft_label height vspeed) LargeFont)),
                        snd (aircraft_tposition e (0.9 * x0) (0.9 * y0)
                               (textlength e (aircraft_label height vspeed) LargeFont)) + LARGE)
                    tail_text VerySmallFont ''white'']))
   \<and> (x + tsize + (4 * AIRCRAFT_SIZE - 2) > sizex e \<longrightarrow>
        fst (aircraft_tposition e x y tsize) = x - 4 * AIRCRAFT_SIZE - tsize)
   \<and> (\<not> x + tsize + (4 * AIRCRAFT_SIZE - 2) > sizex e \<longrightarrow>
        fst (aircraft_tposition e x y tsize) = x + 4 * AIRCRAFT_SIZE + 1)
   \<and> snd (aircraft_tposition e x y tsize) = of_int (py_int (y - LARGE / 2))"
proof -
  have cond: "(tsize + x + 4 * AIRCRAFT_SIZE - 2 > sizex e)
                = (x + tsize + (4 * AIRCRAFT_SIZE - 2) > sizex e)"
    by (simp add: algebra_simps)
  have l: "x + tsize + (4 * AIRCRAFT_SIZE - 2) > sizex e \<longrightarrow>
        fst (aircraft_tposition e x y tsize) = x - 4 * AIRCRAFT_SIZE - tsize"
    by (simp add: aircraft_tposition_def cond)
  have r: "\<not> x + tsize + (4 * AIRCRAFT_SIZE - 2) > sizex e \<longrightarrow>
        fst (aircraft_tposition e x y tsize) = x + 4 * AIRCRAFT_SIZE + 1"
    by (simp add: aircraft_tposition_def cond)
  have s: "snd (aircraft_tposition e x y tsize) = of_int (py_int (y - LARGE / 2))"
    by (simp add: aircraft_tposition_def)
  have shape: "\<exists>glyph speed_line.
      aircraft e x0 y0 direction height vspeed nspeed_length tail
        = [glyph, speed_line,
           Rectangle (aircraft_tposition e (0.9 * x0) (0.9 * y0)
                        (textlength e (aircraft_label height vspeed) LargeFont))
             (fst (aircraft_tposition e (0.9 * x0) (0.9 * y0)
                        (textlength e (aircraft_label height vspeed) LargeFont))
                + textlength e (aircraft_label height vspeed) LargeFont,
              snd (aircraft_tposition e (0.9 * x0) (0.9 * y0)
                        (textlength e (aircraft_label height vspeed) LargeFont)) + LARGE)
             (Some ''black'') None,
           Text (aircraft_tposition e (0.9 * x0) (0.9 * y0)
                   (textlength e (aircraft_label height vspeed) LargeFont))
             (aircraft_label height vspeed) LargeFont ''white'']
          @ (case tail of
               None \<Rightarrow> []
             | Some tail_text \<Rightarrow>
                 [Text (fst (aircraft_tposition e (0.9 * x0) (0.9 * y0)
                               (textlength e (aircraft_label height vspeed) LargeFont)),
                        snd (aircraft_tposition e (0.9 * x0) (0.9 * y0)
                               (textlength e (aircraft_label height vspeed) LargeFont)) + LARGE)
                    tail_text VerySmallFont ''white''])"
    by (simp add: aircraft_def Let_def split: option.split)
  show ?thesis using shape l r s by blast
qed

theorem aircraft_label_anchor_witness:
  "(200::real) + 30 + (4 * AIRCRAFT_SIZE - 2) > sizex panel240
   \<and> fst (aircraft_tposition panel240 200 90 30) = 154
   \<and> \<not> (100::real) + 30 + (4 * AIRCRAFT_SIZE - 2) > sizex panel240
   \<and> fst (aircraft_tposition panel240 100 90 30) = 117"
  using aircraft_label_anchor [of panel240 0 0 0 0 0 0 None 200 30 90]
    aircraft_label_anchor [of panel240 0 0 0 0 0 0 None 100 30 90]
  by (simp add: panel240_def constants)

text \<open>
  Against C9 as stated, with the glyph offset \<open>4 * AIRCRAFT_SIZE\<close> of the left anchor:
  a glyph at 228 (scaled 205.2) with a label 20 wide on a screen 240 wide has
  \<open>x + labelWidth + glyphOffset > screenWidth\<close>, and its label is placed on the right.
\<close>

theorem aircraft_label_counterexample:
  "0.9 * 228 + textlength panel240 ''+5'' LargeFont + 4 * AIRCRAFT_SIZE > sizex panel240
   \<and> aircraft panel240 228 100 0 5 0 10 None ! 3
       = Text (0.9 * 228 + 4 * AIRCRAFT_SIZE + 1, 77) ''+5'' LargeFont ''white''
   \<and> aircraft panel240 228 100 0 5 0 10 None ! 3
       \<noteq> Text (0.9 * 228 - 4 * AIRCRAFT_SIZE - textlength panel240 ''+5'' LargeFont, 77)
            ''+5'' LargeFont ''white''"
  by (simp add: aircraft_def aircraft_label_def aircraft_tposition_def panel240_def str_int_def
      digits.simps Let_def constants py_int_def)

section \<open>Properties of the bar and graph panels\<close>

text \<open>
  C4, as the code has it. For \<open>bar(value=150, max_val=100, yellow=50, red=0)\<close> the fill
  colour is the neutral \<open>DimGray\<close> and the filled rectangle runs from 60 to
  \<open>60 + (240 - 60) * 150 / 100 = 330\<close>. In general, with \<open>red = 0\<close> the colour is neutral
  whatever the value, and for \<open>max_val \<noteq> 0\<close> and a value not below the floor the right
  edge is linear in the value, with no upper bound.
\<close>

theorem bar_neutral_colour_linear_width:
  "fst (bar e y text 150 100 50 0 unit valtext 0) ! 3
     = Rectangle (60, y) (330, y + VERYSMALL) (Some ''DimGray'') None
   \<and> (max_val \<noteq> 0 \<longrightarrow> minval \<le> val \<longrightarrow>
        fst (bar e y text val max_val yellow 0 unit valtext minval) ! 3
          = Rectangle (60, y) (60 + (240 - 60) * val / max_val, y + VERYSMALL)
              (Some ''DimGray'') None)"
  by (simp add: bar_def Let_def)

theorem bar_neutral_colour_witness:
  "(100 :: real) \<noteq> 0 \<and> (0 :: real) \<le> 150
   \<and> fst (bar panel240 7 ''OGN'' 150 100 50 0 [] None 0) ! 3
       = Rectangle (60, 7) (330, 25) (Some ''DimGray'') None"
  using bar_neutral_colour_linear_width [of panel240 7 "''OGN''" "[]" None 100 0 150 50]
  by (simp add: constants)

text \<open>
  Against C4 as stated: the filled rectangle ends at 330, not at the bar end 240.
\<close>

theorem bar_overflow_counterexample:
  "fst (bar panel240 0 ''1090'' 150 100 50 0 [] None 0) ! 3
     = Rectangle (60, 0) (330, 18) (Some ''DimGray'') None
   \<and> (330 :: real) \<noteq> 240"
  by (simp add: bar_def Let_def constants)

lemma str_120: "str_int 120 = ''120''" "str_int 0 = ''0''" "str_int 50 = ''50''" "str_int 100 = ''100''"
  by (simp_all add: str_int_def digits.simps)

text \<open>
  C1, at a failing input. The call of \<open>cowarner\<close> on a 240 by 240 panel,
  \<open>graph(draw, 0, 26, 228, 185, data, 0, 120, 50, 100, timeout)\<close>, with the samples
  \<open>[-12, 60]\<close>: the box drawn is from \<open>(33, 35)\<close> to \<open>(227, 201)\<close>, and the line of the
  samples starts at \<open>y = 217.7\<close>, below the box. The sample under \<open>minvalue\<close> is not
  clamped: the branch for \<open>y > ypos+ysize-1\<close> assigns to \<open>x\<close>.
\<close>

theorem graph_sample_below_minimum_drawn_outside_box:
  "\<exists>ops. graph panel240 0 26 228 185 [- 12, 60] 0 120 50 100 5 = Inr ops
         \<and> Rectangle (33, 35) (33 + 195 - 1, 35 + 167 - 1) (Some ''black'') (Some ''white'') \<in> set ops
         \<and> Line [(33, 2177 / 10), (228, 235 / 2)] ''cyan'' 2 \<in> set ops
         \<and> (2177 / 10 :: real) > 35 + 167 - 1"
  by (simp add: graph_def Let_def panel240_def constants str_120 py_range_def)

end
